theory Spec2Isabelle
  imports Complex_Main "HOL-Library.Word"
begin

section \<open>The indicator base layer of gotrade (indicators/indicators.go)\<close>

text \<open>
  The file declares the error values, the two lookback limits, the base structs that every
  concrete indicator embeds, their constructors and accessors, and the callback types.
  Each struct is a record with the field names of the source, each constructor a constant or
  a function returning the record, each method a function of its receiver.

  The constructors return pointers to freshly allocated structs. Nothing in the file writes
  through such a pointer, so a struct is modelled by its value.
\<close>

subsection \<open>Machine types\<close>

text \<open>
  Go's \<open>int\<close> is the 64-bit signed integer of the usual targets (amd64, arm64), and
  \<open>int64\<close> is 64 bits everywhere. Both are 64-bit words read in two's complement:
  \<open><s\<close> and \<open>\<le>s\<close> are Go's \<open><\<close> and \<open><=\<close> on them.
\<close>

type_synonym go_int = "64 word"
type_synonym int64 = "64 word"

text \<open>\<open>math.MaxInt64 = 1<<63 - 1\<close> and \<open>math.MinInt64 = -1 << 63\<close>.\<close>

definition MaxInt64 :: int64 where
  "MaxInt64 = 0x7FFFFFFFFFFFFFFF"

definition MinInt64 :: int64 where
  "MinInt64 = - 0x8000000000000000"

text \<open>
  A \<open>float64\<close> is an IEEE 754 binary64 datum: a sign bit, eleven exponent bits and
  fifty-two fraction bits.
\<close>

record float64 =
  sign :: bool
  exponent :: "11 word"
  fraction :: "52 word"

definition IsNaN :: "float64 \<Rightarrow> bool" where
  "IsNaN f = (exponent f = 2047 \<and> fraction f \<noteq> 0)"

definition IsInf :: "float64 \<Rightarrow> bool" where
  "IsInf f = (exponent f = 2047 \<and> fraction f = 0)"

definition IsFinite :: "float64 \<Rightarrow> bool" where
  "IsFinite f = (exponent f \<noteq> 2047)"

text \<open>
  Every finite binary64 number is a whole multiple of \<open>2^-1074\<close>. \<open>magnitude\<close> is the
  absolute value counted in that unit: the fraction itself for a subnormal number (exponent
  field 0), and the fraction with its hidden leading bit, shifted by the exponent field, for
  a normal one. The same formula gives an infinity (exponent field 2047, fraction 0) the
  magnitude \<open>2^2098\<close>, above every finite magnitude, so the order of the scaled values is
  the IEEE order on everything that is not a NaN.
\<close>

definition magnitude :: "float64 \<Rightarrow> int" where
  "magnitude f =
     (if exponent f = 0 then uint (fraction f)
      else (2 ^ 52 + uint (fraction f)) * 2 ^ (unat (exponent f) - 1))"

definition scaled :: "float64 \<Rightarrow> int" where
  "scaled f = (if sign f then - magnitude f else magnitude f)"

text \<open>The real number a finite datum stands for.\<close>

definition valof :: "float64 \<Rightarrow> real" where
  "valof f = real_of_int (scaled f) / 2 ^ 1074"

text \<open>
  Go's comparisons on \<open>float64\<close>: false as soon as one side is a NaN, the comparison of
  the values otherwise (so that \<open>-0 == +0\<close>).
\<close>

definition float_lt :: "float64 \<Rightarrow> float64 \<Rightarrow> bool" where
  "float_lt a b = (\<not> IsNaN a \<and> \<not> IsNaN b \<and> scaled a < scaled b)"

definition float_gt :: "float64 \<Rightarrow> float64 \<Rightarrow> bool" where
  "float_gt a b = float_lt b a"

definition float_le :: "float64 \<Rightarrow> float64 \<Rightarrow> bool" where
  "float_le a b = (\<not> IsNaN a \<and> \<not> IsNaN b \<and> scaled a \<le> scaled b)"

definition float_eq :: "float64 \<Rightarrow> float64 \<Rightarrow> bool" where
  "float_eq a b = (\<not> IsNaN a \<and> \<not> IsNaN b \<and> scaled a = scaled b)"

text \<open>
  The two constants of package \<open>math\<close> that the file uses:
  \<open>MaxFloat64 = 0x1p1023 * (1 + (1 - 0x1p-52))\<close> and
  \<open>SmallestNonzeroFloat64 = 0x1p-1022 * 0x1p-52\<close>.
\<close>

definition MaxFloat64 :: float64 where
  "MaxFloat64 = \<lparr>sign = False, exponent = 2046, fraction = 0xFFFFFFFFFFFFF\<rparr>"

definition SmallestNonzeroFloat64 :: float64 where
  "SmallestNonzeroFloat64 = \<lparr>sign = False, exponent = 0, fraction = 1\<rparr>"

text \<open>The literals \<open>0.0\<close>, \<open>1.0\<close> and \<open>-1.0\<close>.\<close>

definition float_zero :: float64 where
  "float_zero = \<lparr>sign = False, exponent = 0, fraction = 0\<rparr>"

definition float_one :: float64 where
  "float_one = \<lparr>sign = False, exponent = 1023, fraction = 0\<rparr>"

definition float_minus_one :: float64 where
  "float_minus_one = \<lparr>sign = True, exponent = 1023, fraction = 0\<rparr>"

subsection \<open>Errors and limits\<close>

text \<open>
  The four package-level error values, each made by \<open>errors.New\<close> with its own message.
\<close>

datatype error =
    ErrSourceDataEmpty
  | ErrNotEnoughSourceDataForLookbackPeriod
  | ErrLookbackPeriodMustBeGreaterThanZero
  | ErrValueAvailableActionIsNil

fun Error :: "error \<Rightarrow> string" where
  "Error ErrSourceDataEmpty = ''Source data is empty''"
| "Error ErrNotEnoughSourceDataForLookbackPeriod =
     ''Source data does not contain enough data for the specfied lookback period''"
| "Error ErrLookbackPeriodMustBeGreaterThanZero = ''Lookback period must be greater than 0''"
| "Error ErrValueAvailableActionIsNil = ''ValueAvailableAction cannot be empty''"

definition MinimumLookbackPeriod :: go_int where
  "MinimumLookbackPeriod = 0"

definition MaximumLookbackPeriod :: go_int where
  "MaximumLookbackPeriod = 100000"

subsection \<open>Bounds trackers\<close>

record baseFloatBounds =
  minValue :: float64
  maxValue :: float64

definition newBaseFloatBounds :: baseFloatBounds where
  "newBaseFloatBounds =
     \<lparr>baseFloatBounds.minValue = MaxFloat64,
      baseFloatBounds.maxValue = SmallestNonzeroFloat64\<rparr>"

definition baseFloatBounds_MinValue :: "baseFloatBounds \<Rightarrow> float64" where
  "baseFloatBounds_MinValue ind = baseFloatBounds.minValue ind"

definition baseFloatBounds_MaxValue :: "baseFloatBounds \<Rightarrow> float64" where
  "baseFloatBounds_MaxValue ind = baseFloatBounds.maxValue ind"

record baseIntBounds =
  minValue :: int64
  maxValue :: int64

definition newBaseIntBounds :: baseIntBounds where
  "newBaseIntBounds =
     \<lparr>baseIntBounds.minValue = MaxInt64, baseIntBounds.maxValue = MinInt64\<rparr>"

definition baseIntBounds_MinValue :: "baseIntBounds \<Rightarrow> int64" where
  "baseIntBounds_MinValue ind = baseIntBounds.minValue ind"

definition baseIntBounds_MaxValue :: "baseIntBounds \<Rightarrow> int64" where
  "baseIntBounds_MaxValue ind = baseIntBounds.maxValue ind"

subsection \<open>Base indicator state\<close>

text \<open>
  \<open>gotrade.DOHLCV\<close> and \<open>gotrade.DataSelectionFunc\<close> belong to the parent package. A bar
  is left abstract; a selection function maps a bar to a \<open>float64\<close>, and the nil function
  value is \<open>None\<close>.
\<close>

typedecl DOHLCV

type_synonym DataSelectionFunc = "(DOHLCV \<Rightarrow> float64) option"

record baseIndicator =
  validFromBar :: go_int
  dataLength :: go_int
  selectData :: DataSelectionFunc
  lookbackPeriod :: go_int

text \<open>
  The composite literal of \<open>newBaseIndicator\<close> names two fields; the other two get Go's
  zero values, \<open>0\<close> and \<open>nil\<close>.
\<close>

definition newBaseIndicator :: "go_int \<Rightarrow> baseIndicator" where
  "newBaseIndicator lookbackPeriod' =
     \<lparr>validFromBar = - 1, dataLength = 0, selectData = None,
      lookbackPeriod = lookbackPeriod'\<rparr>"

definition baseIndicator_ValidFromBar :: "baseIndicator \<Rightarrow> go_int" where
  "baseIndicator_ValidFromBar ind = validFromBar ind"

definition baseIndicator_GetLookbackPeriod :: "baseIndicator \<Rightarrow> go_int" where
  "baseIndicator_GetLookbackPeriod ind = lookbackPeriod ind"

definition baseIndicator_Length :: "baseIndicator \<Rightarrow> go_int" where
  "baseIndicator_Length ind = dataLength ind"

subsection \<open>Time-period decorator\<close>

record baseIndicatorWithTimePeriod =
  timePeriod :: go_int

definition newBaseIndicatorWithTimePeriod :: "go_int \<Rightarrow> baseIndicatorWithTimePeriod" where
  "newBaseIndicatorWithTimePeriod timePeriod' = \<lparr>timePeriod = timePeriod'\<rparr>"

definition GetTimePeriod :: "baseIndicatorWithTimePeriod \<Rightarrow> go_int" where
  "GetTimePeriod ind = timePeriod ind"

subsection \<open>Composite bases\<close>

text \<open>
  A composite base embeds a base indicator and a bounds tracker. The embedded fields carry
  the names of their types, and Go promotes the methods of an embedded field to the
  embedding struct: \<open>c.ValidFromBar()\<close> is \<open>c.baseIndicator.ValidFromBar()\<close>, and
  \<open>c.MinValue()\<close> is \<open>c.baseFloatBounds.MinValue()\<close>. The promoted methods are written
  out below, one definition each.
\<close>

record baseIndicatorWithFloatBounds =
  baseIndicator :: baseIndicator
  baseFloatBounds :: baseFloatBounds

definition newBaseIndicatorWithFloatBounds :: "go_int \<Rightarrow> baseIndicatorWithFloatBounds" where
  "newBaseIndicatorWithFloatBounds lookbackPeriod' =
     \<lparr>baseIndicatorWithFloatBounds.baseIndicator = newBaseIndicator lookbackPeriod',
      baseFloatBounds = newBaseFloatBounds\<rparr>"

definition FloatBounds_ValidFromBar :: "baseIndicatorWithFloatBounds \<Rightarrow> go_int" where
  "FloatBounds_ValidFromBar c =
     baseIndicator_ValidFromBar (baseIndicatorWithFloatBounds.baseIndicator c)"

definition FloatBounds_GetLookbackPeriod :: "baseIndicatorWithFloatBounds \<Rightarrow> go_int" where
  "FloatBounds_GetLookbackPeriod c =
     baseIndicator_GetLookbackPeriod (baseIndicatorWithFloatBounds.baseIndicator c)"

definition FloatBounds_Length :: "baseIndicatorWithFloatBounds \<Rightarrow> go_int" where
  "FloatBounds_Length c =
     baseIndicator_Length (baseIndicatorWithFloatBounds.baseIndicator c)"

definition FloatBounds_MinValue :: "baseIndicatorWithFloatBounds \<Rightarrow> float64" where
  "FloatBounds_MinValue c = baseFloatBounds_MinValue (baseFloatBounds c)"

definition FloatBounds_MaxValue :: "baseIndicatorWithFloatBounds \<Rightarrow> float64" where
  "FloatBounds_MaxValue c = baseFloatBounds_MaxValue (baseFloatBounds c)"

record baseIndicatorWithIntBounds =
  baseIndicator :: baseIndicator
  baseIntBounds :: baseIntBounds

definition newBaseIndicatorWithIntBounds :: "go_int \<Rightarrow> baseIndicatorWithIntBounds" where
  "newBaseIndicatorWithIntBounds lookbackPeriod' =
     \<lparr>baseIndicatorWithIntBounds.baseIndicator = newBaseIndicator lookbackPeriod',
      baseIntBounds = newBaseIntBounds\<rparr>"

definition IntBounds_ValidFromBar :: "baseIndicatorWithIntBounds \<Rightarrow> go_int" where
  "IntBounds_ValidFromBar c =
     baseIndicator_ValidFromBar (baseIndicatorWithIntBounds.baseIndicator c)"

definition IntBounds_GetLookbackPeriod :: "baseIndicatorWithIntBounds \<Rightarrow> go_int" where
  "IntBounds_GetLookbackPeriod c =
     baseIndicator_GetLookbackPeriod (baseIndicatorWithIntBounds.baseIndicator c)"

definition IntBounds_Length :: "baseIndicatorWithIntBounds \<Rightarrow> go_int" where
  "IntBounds_Length c =
     baseIndicator_Length (baseIndicatorWithIntBounds.baseIndicator c)"

definition IntBounds_MinValue :: "baseIndicatorWithIntBounds \<Rightarrow> int64" where
  "IntBounds_MinValue c = baseIntBounds_MinValue (baseIntBounds c)"

definition IntBounds_MaxValue :: "baseIndicatorWithIntBounds \<Rightarrow> int64" where
  "IntBounds_MaxValue c = baseIntBounds_MaxValue (baseIntBounds c)"

subsection \<open>Recording an emitted value\<close>

text \<open>
  Modelled from the spec: the update of a bounds tracker, run once per emitted value.
  indicators.go has no function that writes \<open>minValue\<close> or \<open>maxValue\<close>; the concrete
  indicators that embed a tracker do it, and they are not in this file. Section 4.2 of the
  specification gives the rule: \<open>min = v if v < min else min\<close> and
  \<open>max = v if v > max else max\<close>, with Go's comparison of the tracker's value type.
\<close>

definition updateFloatBounds :: "float64 \<Rightarrow> baseFloatBounds \<Rightarrow> baseFloatBounds" where
  "updateFloatBounds v ind =
     \<lparr>baseFloatBounds.minValue =
        (if float_lt v (baseFloatBounds.minValue ind) then v else baseFloatBounds.minValue ind),
      baseFloatBounds.maxValue =
        (if float_gt v (baseFloatBounds.maxValue ind) then v else baseFloatBounds.maxValue ind)\<rparr>"

definition updateIntBounds :: "int64 \<Rightarrow> baseIntBounds \<Rightarrow> baseIntBounds" where
  "updateIntBounds v ind =
     \<lparr>baseIntBounds.minValue =
        (if v <s baseIntBounds.minValue ind then v else baseIntBounds.minValue ind),
      baseIntBounds.maxValue =
        (if baseIntBounds.maxValue ind <s v then v else baseIntBounds.maxValue ind)\<rparr>"

subsection \<open>A constructor that validates its lookback period\<close>

text \<open>
  Modelled from the spec: the constructor of a concrete indicator that needs a strictly
  positive lookback period. indicators.go declares the error value and the two limits but
  holds no constructor that checks a period; \<open>newBaseIndicator\<close> stores what it is given.
  Section 7 of the specification reports \<open>LookbackPeriodMustBeGreaterThanZero\<close> for a
  period outside \<open>[MinimumLookbackPeriod + 1, MaximumLookbackPeriod]\<close>; inside that range
  the constructor builds the base state.
\<close>

definition newIndicatorRequiringPositiveLookback :: "go_int \<Rightarrow> error + baseIndicator" where
  "newIndicatorRequiringPositiveLookback lookbackPeriod' =
     (if lookbackPeriod' <s MinimumLookbackPeriod + 1
         \<or> MaximumLookbackPeriod <s lookbackPeriod'
      then Inl ErrLookbackPeriodMustBeGreaterThanZero
      else Inr (newBaseIndicator lookbackPeriod'))"

subsection \<open>Value-available callback types\<close>

text \<open>
  The file ends with eight declarations of function types, from line 172 to line 179. A
  declaration is represented by its name and by the list of its parameter types, in the
  order of the source; the last parameter is always \<open>streamBarIndex int\<close>.
\<close>

datatype goType = TyFloat64 | TyInt64 | TyInt | TyDOHLCV

datatype ValueAvailableAction =
    ValueAvailableActionFloat
  | ValueAvailableActionInt
  | ValueAvailableActionDOHLCV
  | ValueAvailableActionBollinger
  | ValueAvailableActionMACD
  | ValueAvailableActionAroon
  | ValueAvailableActionStoch
  | ValueAvailableActionLinearReg

fun parameters :: "ValueAvailableAction \<Rightarrow> goType list" where
  "parameters ValueAvailableActionFloat = [TyFloat64, TyInt]"
| "parameters ValueAvailableActionInt = [TyInt64, TyInt]"
| "parameters ValueAvailableActionDOHLCV = [TyDOHLCV, TyInt]"
| "parameters ValueAvailableActionBollinger = [TyFloat64, TyFloat64, TyFloat64, TyInt]"
| "parameters ValueAvailableActionMACD = [TyFloat64, TyFloat64, TyFloat64, TyInt]"
| "parameters ValueAvailableActionAroon = [TyFloat64, TyFloat64, TyInt]"
| "parameters ValueAvailableActionStoch = [TyFloat64, TyFloat64, TyInt]"
| "parameters ValueAvailableActionLinearReg = [TyFloat64, TyFloat64, TyFloat64, TyInt]"

definition declaredActions :: "ValueAvailableAction list" where
  "declaredActions =
     [ValueAvailableActionFloat, ValueAvailableActionInt, ValueAvailableActionDOHLCV,
      ValueAvailableActionBollinger, ValueAvailableActionMACD, ValueAvailableActionAroon,
      ValueAvailableActionStoch, ValueAvailableActionLinearReg]"

text \<open>
  The seven shapes that section 4.6 of the specification names (float, integer, full bar,
  band-triplet, MACD-triplet, dual-line, slope/intercept-triplet), and the shape each
  declared type falls under. Both two-line types, Aroon and Stoch, are dual-line.
\<close>

datatype spec_shape =
    ShapeFloat | ShapeInteger | ShapeFullBar | ShapeBandTriplet | ShapeMACDTriplet
  | ShapeDualLine | ShapeSlopeInterceptTriplet

fun spec_shape_of :: "ValueAvailableAction \<Rightarrow> spec_shape" where
  "spec_shape_of ValueAvailableActionFloat = ShapeFloat"
| "spec_shape_of ValueAvailableActionInt = ShapeInteger"
| "spec_shape_of ValueAvailableActionDOHLCV = ShapeFullBar"
| "spec_shape_of ValueAvailableActionBollinger = ShapeBandTriplet"
| "spec_shape_of ValueAvailableActionMACD = ShapeMACDTriplet"
| "spec_shape_of ValueAvailableActionAroon = ShapeDualLine"
| "spec_shape_of ValueAvailableActionStoch = ShapeDualLine"
| "spec_shape_of ValueAvailableActionLinearReg = ShapeSlopeInterceptTriplet"

section \<open>Properties\<close>

subsection \<open>The order of the integers and of the floats\<close>

lemma le_MaxInt64: "i \<le>s MaxInt64"
  using sint_lt [of i] by (simp add: MaxInt64_def word_sle_eq)

lemma MinInt64_le: "MinInt64 \<le>s i"
  using sint_ge [of i] by (simp add: MinInt64_def word_sle_eq)

lemma sint_MaxInt64: "sint MaxInt64 = 2 ^ 63 - 1"
  by (simp add: MaxInt64_def)

lemma sint_MinInt64: "sint MinInt64 = - (2 ^ 63)"
  by (simp add: MinInt64_def)

lemma uint_fraction_lt: "uint (x :: 52 word) < 2 ^ 52"
  using uint_bounded [of x] by simp

lemma unat_exponent_lt: "unat (e :: 11 word) < 2048"
proof -
  have "unat e < 2 ^ LENGTH(11)" by (rule unsigned_less)
  then show ?thesis by simp
qed

lemma magnitude_nonneg: "0 \<le> magnitude f"
  by (simp add: magnitude_def)

lemma scaled_le_magnitude: "scaled f \<le> magnitude f"
  using magnitude_nonneg [of f] by (simp add: scaled_def)

lemma scaled_pos_sign: "0 < scaled f \<Longrightarrow> \<not> sign f"
  using magnitude_nonneg [of f] by (auto simp: scaled_def split: if_splits)

text \<open>The comparisons are those of the real values.\<close>

lemma valof_less_iff: "valof a < valof b \<longleftrightarrow> scaled a < scaled b"
  by (simp add: valof_def divide_less_cancel)

lemma float_lt_valof: "float_lt a b \<longleftrightarrow> \<not> IsNaN a \<and> \<not> IsNaN b \<and> valof a < valof b"
  by (simp only: float_lt_def valof_less_iff)

lemma scaled_MaxFloat64: "scaled MaxFloat64 = (2 ^ 53 - 1) * 2 ^ 2045"
  by (simp add: scaled_def magnitude_def MaxFloat64_def)

lemma scaled_SmallestNonzeroFloat64: "scaled SmallestNonzeroFloat64 = 1"
  by (simp add: scaled_def magnitude_def SmallestNonzeroFloat64_def)

lemma scaled_float_zero: "scaled float_zero = 0"
  by (simp add: scaled_def magnitude_def float_zero_def)

lemma scaled_float_one: "scaled float_one = 2 ^ 1074"
  by (simp add: scaled_def magnitude_def float_one_def)

lemma scaled_float_minus_one: "scaled float_minus_one = - (2 ^ 1074)"
  by (simp add: scaled_def magnitude_def float_minus_one_def)

lemma valof_literals:
  "valof float_zero = 0" "valof float_one = 1" "valof float_minus_one = - 1"
  by (simp_all add: valof_def scaled_float_zero scaled_float_one scaled_float_minus_one)

text \<open>The two records stand for the values that package \<open>math\<close> documents.\<close>

lemma valof_MaxFloat64: "valof MaxFloat64 = 2 ^ 1023 * (1 + (1 - 1 / 2 ^ 52))"
  by (simp add: valof_def scaled_MaxFloat64)

lemma valof_SmallestNonzeroFloat64:
  "valof SmallestNonzeroFloat64 = 1 / 2 ^ 1022 * (1 / 2 ^ 52)"
  by (simp add: valof_def scaled_SmallestNonzeroFloat64)

lemma not_NaN_constants [simp]:
  "\<not> IsNaN MaxFloat64" "\<not> IsNaN SmallestNonzeroFloat64" "\<not> IsNaN float_zero"
  "\<not> IsNaN float_one" "\<not> IsNaN float_minus_one"
  by (simp_all add: IsNaN_def MaxFloat64_def SmallestNonzeroFloat64_def float_zero_def
      float_one_def float_minus_one_def)

lemma IsFinite_not_NaN: "IsFinite f \<Longrightarrow> \<not> IsNaN f"
  by (simp add: IsFinite_def IsNaN_def)

lemma magnitude_finite_le:
  assumes "IsFinite f"
  shows "magnitude f \<le> (2 ^ 53 - 1) * 2 ^ 2045"
proof (cases "exponent f = 0")
  case True
  have "uint (fraction f) < 2 ^ 52" by (rule uint_fraction_lt)
  also have "(2::int) ^ 52 \<le> (2 ^ 53 - 1) * 2 ^ 2045" by simp
  finally show ?thesis using True by (simp add: magnitude_def)
next
  case False
  have "unat (exponent f) \<noteq> 2047"
  proof
    assume "unat (exponent f) = 2047"
    then have "exponent f = 2047" by (simp add: word_unat_eq_iff)
    with assms show False by (simp add: IsFinite_def)
  qed
  with unat_exponent_lt [of "exponent f"] have e: "unat (exponent f) - 1 \<le> 2045" by simp
  have fr: "2 ^ 52 + uint (fraction f) \<le> 2 ^ 53 - 1"
    using uint_fraction_lt [of "fraction f"] by simp
  have "(2 ^ 52 + uint (fraction f)) * 2 ^ (unat (exponent f) - 1)
        \<le> (2 ^ 53 - 1) * (2::int) ^ (unat (exponent f) - 1)"
    using fr by (intro mult_right_mono) simp_all
  also have "\<dots> \<le> (2 ^ 53 - 1) * (2::int) ^ 2045"
    using e by (intro mult_left_mono power_increasing) simp_all
  finally show ?thesis using False by (simp add: magnitude_def)
qed

lemma magnitude_exponent_2047:
  assumes "exponent f = 2047"
  shows "2 ^ 52 * 2 ^ 2046 \<le> magnitude f"
proof -
  have "magnitude f = (2 ^ 52 + uint (fraction f)) * 2 ^ 2046"
    using assms by (simp add: magnitude_def)
  moreover have "(2::int) ^ 52 * 2 ^ 2046 \<le> (2 ^ 52 + uint (fraction f)) * 2 ^ 2046"
    by (intro mult_right_mono) simp_all
  ultimately show ?thesis
    by (simp only:)
qed

text \<open>An infinity lies beyond every finite magnitude.\<close>

lemma finite_below_inf:
  assumes "IsFinite a" and "IsInf b"
  shows "magnitude a < magnitude b"
proof -
  have "magnitude a \<le> (2 ^ 53 - 1) * 2 ^ 2045"
    using assms(1) by (rule magnitude_finite_le)
  also have "\<dots> < (2::int) ^ 52 * 2 ^ 2046" by simp
  also have "\<dots> \<le> magnitude b"
    using assms(2) by (intro magnitude_exponent_2047) (simp add: IsInf_def)
  finally show ?thesis .
qed

lemma scaled_finite_le:
  assumes "IsFinite f"
  shows "scaled f \<le> (2 ^ 53 - 1) * 2 ^ 2045"
  using scaled_le_magnitude magnitude_finite_le [OF assms] by (rule order_trans)

lemma float_le_MaxFloat64:
  assumes "IsFinite f"
  shows "float_le f MaxFloat64"
proof -
  have "scaled f \<le> scaled MaxFloat64"
    using scaled_finite_le [OF assms] by (simp only: scaled_MaxFloat64)
  then show ?thesis
    using assms by (simp add: float_le_def IsFinite_not_NaN)
qed

lemma SmallestNonzeroFloat64_least_positive:
  "float_lt float_zero f \<Longrightarrow> float_le SmallestNonzeroFloat64 f"
  by (simp add: float_lt_def float_le_def scaled_float_zero scaled_SmallestNonzeroFloat64)

lemma scaled_le_MaxFloat64_finite:
  assumes "scaled f \<le> scaled MaxFloat64" and "\<not> sign f"
  shows "IsFinite f"
proof (rule ccontr)
  assume "\<not> IsFinite f"
  then have "exponent f = 2047"
    by (simp add: IsFinite_def)
  then have "(2::int) ^ 52 * 2 ^ 2046 \<le> magnitude f"
    by (rule magnitude_exponent_2047)
  also have "magnitude f = scaled f"
    using assms(2) by (simp add: scaled_def)
  also note assms(1)
  finally show False
    by (simp add: scaled_MaxFloat64)
qed

subsection \<open>Bounds trackers\<close>

text \<open>
  The first value recorded in a fresh integer tracker becomes both bounds, whatever it is:
  no \<open>int64\<close> lies above the min seed or below the max seed.
\<close>

lemma updateIntBounds_first:
  "baseIntBounds_MinValue (updateIntBounds v newBaseIntBounds) = v
   \<and> baseIntBounds_MaxValue (updateIntBounds v newBaseIntBounds) = v"
proof -
  have "v = MaxInt64" if "\<not> v <s MaxInt64"
    using that le_MaxInt64 [of v] by (simp add: signed.le_less)
  moreover have "v = MinInt64" if "\<not> MinInt64 <s v"
    using that MinInt64_le [of v] by (auto simp add: signed.le_less)
  ultimately show ?thesis
    by (auto simp add: updateIntBounds_def newBaseIntBounds_def baseIntBounds_MinValue_def
        baseIntBounds_MaxValue_def)
qed

text \<open>
  The first value recorded in a fresh float tracker becomes both bounds exactly when it is
  finite and greater than zero. The max seed is the smallest positive float, so zero and
  every negative value leave it in place.
\<close>

lemma updateFloatBounds_first_iff:
  "float_eq (baseFloatBounds_MinValue (updateFloatBounds v newBaseFloatBounds)) v
   \<and> float_eq (baseFloatBounds_MaxValue (updateFloatBounds v newBaseFloatBounds)) v
   \<longleftrightarrow> IsFinite v \<and> float_lt float_zero v"
  (is "?min \<and> ?max \<longleftrightarrow> ?rhs")
proof
  assume both: "?min \<and> ?max"
  then have le: "scaled v \<le> scaled MaxFloat64"
    by (auto simp add: updateFloatBounds_def newBaseFloatBounds_def
        baseFloatBounds_MinValue_def float_eq_def float_lt_def split: if_splits)
  from both have pos: "1 \<le> scaled v" and nn: "\<not> IsNaN v"
    by (auto simp add: updateFloatBounds_def newBaseFloatBounds_def
        baseFloatBounds_MaxValue_def float_eq_def float_gt_def float_lt_def
        scaled_SmallestNonzeroFloat64 split: if_splits)
  from pos have "\<not> sign v" by (intro scaled_pos_sign) simp
  with le have "IsFinite v" by (rule scaled_le_MaxFloat64_finite)
  moreover from pos nn have "float_lt float_zero v"
    by (simp add: float_lt_def scaled_float_zero)
  ultimately show ?rhs ..
next
  assume r: ?rhs
  then have nn: "\<not> IsNaN v" by (simp add: IsFinite_not_NaN)
  from r have le: "scaled v \<le> scaled MaxFloat64"
    using scaled_finite_le [of v] by (simp only: scaled_MaxFloat64)
  from r have pos: "1 \<le> scaled v"
    by (simp add: float_lt_def scaled_float_zero)
  from nn le have ?min
    by (simp add: updateFloatBounds_def newBaseFloatBounds_def
        baseFloatBounds_MinValue_def float_eq_def float_lt_def)
  moreover from nn pos have ?max
    by (simp add: updateFloatBounds_def newBaseFloatBounds_def
        baseFloatBounds_MaxValue_def float_eq_def float_gt_def float_lt_def
        scaled_SmallestNonzeroFloat64)
  ultimately show "?min \<and> ?max" ..
qed

text \<open>
  C1. The claim: for both tracker variants, the first value \<open>v\<close> recorded in a fresh
  tracker gives \<open>MinValue() == v\<close> and \<open>MaxValue() == v\<close>, for every \<open>v\<close>, zero and
  negative values included. The float tracker does not do that: after \<open>-1.0\<close>, and after
  \<open>0.0\<close>, as the first value, \<open>MaxValue()\<close> is still the seed
  \<open>math.SmallestNonzeroFloat64\<close> and differs from the value recorded.
\<close>

theorem first_nonpositive_float_keeps_max_seed:
  "baseFloatBounds_MaxValue (updateFloatBounds float_minus_one newBaseFloatBounds)
     = SmallestNonzeroFloat64
   \<and> \<not> float_eq (baseFloatBounds_MaxValue (updateFloatBounds float_minus_one newBaseFloatBounds))
                float_minus_one
   \<and> baseFloatBounds_MaxValue (updateFloatBounds float_zero newBaseFloatBounds)
     = SmallestNonzeroFloat64
   \<and> \<not> float_eq (baseFloatBounds_MaxValue (updateFloatBounds float_zero newBaseFloatBounds))
                float_zero"
  by (simp add: updateFloatBounds_def newBaseFloatBounds_def baseFloatBounds_MaxValue_def
      float_eq_def float_gt_def float_lt_def scaled_SmallestNonzeroFloat64
      scaled_float_minus_one scaled_float_zero)

text \<open>
  C2. The float tracker starts with its minimum at the largest finite float and its maximum
  at the smallest float above zero; the integer tracker starts with its minimum at the
  largest \<open>int64\<close> and its maximum at the smallest \<open>int64\<close>.
\<close>

theorem bounds_seeds:
  "baseFloatBounds_MinValue newBaseFloatBounds = MaxFloat64
   \<and> baseFloatBounds_MaxValue newBaseFloatBounds = SmallestNonzeroFloat64
   \<and> IsFinite MaxFloat64 \<and> (\<forall>f. IsFinite f \<longrightarrow> float_le f MaxFloat64)
   \<and> float_lt float_zero SmallestNonzeroFloat64
   \<and> (\<forall>f. float_lt float_zero f \<longrightarrow> float_le SmallestNonzeroFloat64 f)
   \<and> baseIntBounds_MinValue newBaseIntBounds = MaxInt64
   \<and> baseIntBounds_MaxValue newBaseIntBounds = MinInt64
   \<and> (\<forall>i. i \<le>s MaxInt64) \<and> (\<forall>i. MinInt64 \<le>s i)"
proof -
  have "IsFinite MaxFloat64"
    by (simp add: IsFinite_def MaxFloat64_def)
  moreover have "float_lt float_zero SmallestNonzeroFloat64"
    by (simp add: float_lt_def scaled_float_zero scaled_SmallestNonzeroFloat64)
  ultimately show ?thesis
    by (simp add: baseFloatBounds_MinValue_def baseFloatBounds_MaxValue_def
        newBaseFloatBounds_def baseIntBounds_MinValue_def baseIntBounds_MaxValue_def
        newBaseIntBounds_def float_le_MaxFloat64 SmallestNonzeroFloat64_least_positive
        le_MaxInt64 MinInt64_le)
qed

theorem bounds_seeds_witness:
  "IsFinite float_one \<and> float_le float_one MaxFloat64
   \<and> float_lt float_zero float_one \<and> float_le SmallestNonzeroFloat64 float_one"
proof -
  have fin: "IsFinite float_one"
    by (simp add: IsFinite_def float_one_def)
  have pos: "float_lt float_zero float_one"
    by (simp add: float_lt_def scaled_float_zero scaled_float_one)
  from bounds_seeds have "IsFinite float_one \<longrightarrow> float_le float_one MaxFloat64"
    and "float_lt float_zero float_one \<longrightarrow> float_le SmallestNonzeroFloat64 float_one"
    by blast+
  with fin pos show ?thesis by blast
qed

text \<open>
  C9. A fresh tracker of either variant, before any value is recorded, answers
  \<open>MinValue() > MaxValue()\<close>: the bounds are inverted, and \<open>min \<le> max\<close> does not hold
  yet.
\<close>

theorem fresh_bounds_inverted:
  "float_gt (baseFloatBounds_MinValue newBaseFloatBounds)
            (baseFloatBounds_MaxValue newBaseFloatBounds)
   \<and> \<not> float_le (baseFloatBounds_MinValue newBaseFloatBounds)
                (baseFloatBounds_MaxValue newBaseFloatBounds)
   \<and> baseIntBounds_MaxValue newBaseIntBounds <s baseIntBounds_MinValue newBaseIntBounds
   \<and> \<not> baseIntBounds_MinValue newBaseIntBounds \<le>s baseIntBounds_MaxValue newBaseIntBounds"
  by (simp add: baseFloatBounds_MinValue_def baseFloatBounds_MaxValue_def
      newBaseFloatBounds_def baseIntBounds_MinValue_def baseIntBounds_MaxValue_def
      newBaseIntBounds_def float_gt_def float_lt_def float_le_def scaled_MaxFloat64
      scaled_SmallestNonzeroFloat64 word_sless_alt word_sle_eq sint_MaxInt64 sint_MinInt64)

subsection \<open>Base indicator state\<close>

text \<open>
  C3. For every valid lookback period \<open>p\<close> with \<open>0 < p \<le> MaximumLookbackPeriod\<close>, a
  freshly constructed base indicator answers \<open>ValidFromBar() = -1\<close> and \<open>Length() = 0\<close>.
\<close>

theorem fresh_indicator_unattached:
  assumes "0 <s p" and "p \<le>s MaximumLookbackPeriod"
  shows "baseIndicator_ValidFromBar (newBaseIndicator p) = - 1
       \<and> baseIndicator_Length (newBaseIndicator p) = 0"
  by (simp add: baseIndicator_ValidFromBar_def baseIndicator_Length_def newBaseIndicator_def)

theorem fresh_indicator_unattached_witness:
  "(0 :: go_int) <s 14 \<and> (14 :: go_int) \<le>s MaximumLookbackPeriod
   \<and> baseIndicator_ValidFromBar (newBaseIndicator 14) = - 1
   \<and> baseIndicator_Length (newBaseIndicator 14) = 0"
proof -
  have pos: "(0 :: go_int) <s 14"
    by (simp add: word_sless_alt)
  have le: "(14 :: go_int) \<le>s MaximumLookbackPeriod"
    by (simp add: MaximumLookbackPeriod_def word_sle_eq)
  from pos le fresh_indicator_unattached [OF pos le] show ?thesis
    by simp
qed

text \<open>
  C10. Constructing the base state never fails and neither checks nor clamps its argument:
  \<open>newBaseIndicator\<close> has no error result, and for every \<open>p\<close>, whatever its sign or size,
  the state it returns answers \<open>GetLookbackPeriod() = p\<close>.
\<close>

theorem newBaseIndicator_stores_any_period:
  "baseIndicator_GetLookbackPeriod (newBaseIndicator p) = p
   \<and> baseIndicator_GetLookbackPeriod (newBaseIndicator 0) = 0
   \<and> baseIndicator_GetLookbackPeriod (newBaseIndicator (- 5)) = - 5
   \<and> baseIndicator_GetLookbackPeriod (newBaseIndicator (MaximumLookbackPeriod + 1))
       = MaximumLookbackPeriod + 1"
  by (simp add: baseIndicator_GetLookbackPeriod_def newBaseIndicator_def)

text \<open>
  C4. A constructor that needs a strictly positive lookback period fails on every period
  \<open>p \<le> 0\<close>, the failure is \<open>ErrLookbackPeriodMustBeGreaterThanZero\<close>, and no indicator
  comes back.
\<close>

theorem nonpositive_lookback_rejected:
  assumes "p \<le>s 0"
  shows "newIndicatorRequiringPositiveLookback p = Inl ErrLookbackPeriodMustBeGreaterThanZero
       \<and> (\<forall>ind. newIndicatorRequiringPositiveLookback p \<noteq> Inr ind)"
proof -
  from assms have "sint p < 1"
    by (simp add: word_sle_eq)
  then have "p <s MinimumLookbackPeriod + 1"
    by (simp add: MinimumLookbackPeriod_def word_sless_alt)
  then show ?thesis
    by (simp add: newIndicatorRequiringPositiveLookback_def)
qed

theorem nonpositive_lookback_rejected_witness:
  "(- 3 :: go_int) \<le>s 0
   \<and> newIndicatorRequiringPositiveLookback (- 3) = Inl ErrLookbackPeriodMustBeGreaterThanZero"
proof -
  have neg: "(- 3 :: go_int) \<le>s 0"
    by (simp add: word_sle_eq)
  from neg nonpositive_lookback_rejected [OF neg] show ?thesis
    by simp
qed

subsection \<open>Limits\<close>

text \<open>
  C7. The two lookback limits are \<open>MinimumLookbackPeriod = 0\<close> and
  \<open>MaximumLookbackPeriod = 100000\<close>.
\<close>

theorem lookback_limits:
  "MinimumLookbackPeriod = 0 \<and> MaximumLookbackPeriod = 100000
   \<and> sint MinimumLookbackPeriod = 0 \<and> sint MaximumLookbackPeriod = 100000"
  by (simp add: MinimumLookbackPeriod_def MaximumLookbackPeriod_def)

subsection \<open>Time-period decorator\<close>

text \<open>
  C8. For every integer \<open>t\<close>, \<open>GetTimePeriod()\<close> on the decorator constructed with \<open>t\<close>
  returns \<open>t\<close>. The decorator has no other field, in particular no lookback period.
\<close>

theorem GetTimePeriod_roundtrip:
  "GetTimePeriod (newBaseIndicatorWithTimePeriod t) = t"
  by (simp add: GetTimePeriod_def newBaseIndicatorWithTimePeriod_def)

subsection \<open>Composite bases\<close>

text \<open>
  C6. For every lookback period \<open>p\<close>, a composite base of either flavour constructed with
  \<open>p\<close> answers all the accessors of its two parts: \<open>ValidFromBar() = -1\<close>,
  \<open>GetLookbackPeriod() = p\<close>, \<open>Length() = 0\<close>, and \<open>MinValue()\<close> and \<open>MaxValue()\<close> give
  the seeds of a fresh tracker of the matching type.
\<close>

theorem composite_base_accessors:
  "FloatBounds_ValidFromBar (newBaseIndicatorWithFloatBounds p) = - 1
   \<and> FloatBounds_GetLookbackPeriod (newBaseIndicatorWithFloatBounds p) = p
   \<and> FloatBounds_Length (newBaseIndicatorWithFloatBounds p) = 0
   \<and> FloatBounds_MinValue (newBaseIndicatorWithFloatBounds p)
       = baseFloatBounds_MinValue newBaseFloatBounds
   \<and> FloatBounds_MaxValue (newBaseIndicatorWithFloatBounds p)
       = baseFloatBounds_MaxValue newBaseFloatBounds
   \<and> FloatBounds_MinValue (newBaseIndicatorWithFloatBounds p) = MaxFloat64
   \<and> FloatBounds_MaxValue (newBaseIndicatorWithFloatBounds p) = SmallestNonzeroFloat64
   \<and> IntBounds_ValidFromBar (newBaseIndicatorWithIntBounds p) = - 1
   \<and> IntBounds_GetLookbackPeriod (newBaseIndicatorWithIntBounds p) = p
   \<and> IntBounds_Length (newBaseIndicatorWithIntBounds p) = 0
   \<and> IntBounds_MinValue (newBaseIndicatorWithIntBounds p)
       = baseIntBounds_MinValue newBaseIntBounds
   \<and> IntBounds_MaxValue (newBaseIndicatorWithIntBounds p)
       = baseIntBounds_MaxValue newBaseIntBounds
   \<and> IntBounds_MinValue (newBaseIndicatorWithIntBounds p) = MaxInt64
   \<and> IntBounds_MaxValue (newBaseIndicatorWithIntBounds p) = MinInt64"
  by (simp add: FloatBounds_ValidFromBar_def FloatBounds_GetLookbackPeriod_def
      FloatBounds_Length_def FloatBounds_MinValue_def FloatBounds_MaxValue_def
      newBaseIndicatorWithFloatBounds_def IntBounds_ValidFromBar_def
      IntBounds_GetLookbackPeriod_def IntBounds_Length_def IntBounds_MinValue_def
      IntBounds_MaxValue_def newBaseIndicatorWithIntBounds_def
      baseIndicator_ValidFromBar_def baseIndicator_GetLookbackPeriod_def
      baseIndicator_Length_def newBaseIndicator_def
      baseFloatBounds_MinValue_def baseFloatBounds_MaxValue_def newBaseFloatBounds_def
      baseIntBounds_MinValue_def baseIntBounds_MaxValue_def newBaseIntBounds_def)

subsection \<open>Value-available callback types\<close>

text \<open>
  C5. The claim: exactly seven distinct callback shapes are defined, one per output
  cardinality and type. It fails on the declarations: they are eight, and their parameter
  lists are five, so neither count is seven.
\<close>

theorem seven_callback_shapes_counterexample:
  "card (set declaredActions) \<noteq> 7 \<and> card (set (map parameters declaredActions)) \<noteq> 7"
  unfolding List.card_set by (simp add: declaredActions_def)

text \<open>
  C5, as amended. Eight callback types are declared, all different. They fall under the
  seven shapes of the specification, the dual-line shape being declared twice (Aroon and
  Stoch), and they have five different parameter lists.
\<close>

theorem callback_types_declared:
  "length declaredActions = 8 \<and> distinct declaredActions
   \<and> card (set (map spec_shape_of declaredActions)) = 7
   \<and> spec_shape_of ValueAvailableActionAroon = ShapeDualLine
   \<and> spec_shape_of ValueAvailableActionStoch = ShapeDualLine
   \<and> card (set (map parameters declaredActions)) = 5"
  unfolding List.card_set by (simp add: declaredActions_def)

end
